theory Spec2Isabelle
  imports Main
begin

section \<open>Values, exceptions and the log\<close>

text \<open>
  The two modules under study are \<^verbatim>\<open>core/remote.py\<close> (sharing named objects with
  other processes) and \<^verbatim>\<open>logic/generic_logic.py\<close> (the task registry and the
  interruptable task). Python values are represented as far as the two modules touch
  them: \<open>PyObj i\<close> is an opaque object with identity \<open>i\<close>, \<open>PyFunc i\<close> a callable,
  \<open>PyEvent e\<close> the bound event method that the state machine library installs for
  event \<open>e\<close>, \<open>PyTaskResult d s\<close> an instance of \<^verbatim>\<open>TaskResult\<close> with its two
  attributes.
\<close>

datatype exn =
    AttributeError string
  | TypeError string
  | ValueError string
  | FysomError string
  | ConnectionRefusedError
  | Raised string

datatype pyval =
    PyNone
  | PyBool bool
  | PyInt int
  | PyStr string
  | PyList "pyval list"
  | PyObj nat
  | PyFunc nat
  | PyMethod string
  | PySignal string
  | PyEvent string
  | PyMutex
  | PyDict "(string \<times> pyval) list"
  | PyFormat string "pyval list"
  | PyExc exn
  | PyTaskResult pyval pyval

text \<open>
  Modelled from the spec: \<^verbatim>\<open>logMsg\<close>, of the manager's logger and of the base class of
  the logic modules (\<^verbatim>\<open>core/base.py\<close>); neither is among the sources. It is the
  structured logger taking a free-text message and a severity: a call appends an entry
  to the log. The entry keeps the \<^verbatim>\<open>msgType\<close> keyword argument (\<open>None\<close> when the call
  gives none) and the message as the format string with the arguments of
  \<^verbatim>\<open>str.format\<close>, so that no rendering of values to text has to be assumed.
\<close>

record logentry =
  msgType :: "string option"
  template :: string
  fmtargs :: "pyval list"

type_synonym logger = "logentry list"

definition logMsg :: "string \<Rightarrow> pyval list \<Rightarrow> string option \<Rightarrow> logger \<Rightarrow> logger" where
  "logMsg msg margs mtype lg = lg @ [\<lparr>msgType = mtype, template = msg, fmtargs = margs\<rparr>]"

section \<open>The table models of core/util/models.py\<close>

record ('k, 'v) DictTableModel =
  headers :: "string list"
  storage :: "'k \<rightharpoonup> 'v"

text \<open>
  Modelled from the spec: \<^verbatim>\<open>DictTableModel\<close> of \<^verbatim>\<open>core/util/models.py\<close>, which is not
  among the sources. A new model has the single header \<^verbatim>\<open>Name\<close> slot that
  \<^verbatim>\<open>RemoteObjectManager.__init__\<close> overwrites, and an empty storage.
\<close>

definition DictTableModel_init :: "('k, 'v) DictTableModel" where
  "DictTableModel_init = \<lparr>headers = [''Name''], storage = Map.empty\<rparr>"

text \<open>
  Modelled from the spec: \<^verbatim>\<open>DictTableModel.add\<close>, not among the sources. The spec gives
  its behaviour through its two callers, and not in one way: for \<^verbatim>\<open>registerTask\<close> an
  entry under a name already present is rejected rather than overwritten, for
  \<^verbatim>\<open>shareModule\<close> it is overwritten. The model follows the words for registration, where
  the sources show the contract in use: \<^verbatim>\<open>registerTask\<close> compares the result with
  \<^verbatim>\<open>None\<close> and then reports that a task is already registered with this name. The
  result is \<open>None\<close> on rejection and the key otherwise (any result other than \<^verbatim>\<open>None\<close>
  reads the same to the callers). For a name not yet present the two readings agree,
  the entry is inserted; every statement below about \<^verbatim>\<open>shareModule\<close> is about such a
  name.
\<close>

definition DictTableModel_add ::
  "'k \<Rightarrow> 'v \<Rightarrow> ('k, 'v) DictTableModel \<Rightarrow> 'k option \<times> ('k, 'v) DictTableModel" where
  "DictTableModel_add key val m =
     (case storage m key of
        Some old \<Rightarrow> (None, m)
      | None \<Rightarrow> (Some key, m\<lparr>storage := (storage m)(key \<mapsto> val)\<rparr>))"

text \<open>
  Modelled from the spec: \<^verbatim>\<open>DictTableModel.pop\<close>, not among the sources: removes the
  entry if present and returns its value; for an absent key nothing is raised and
  nothing changes.
\<close>

definition DictTableModel_pop ::
  "'k \<Rightarrow> ('k, 'v) DictTableModel \<Rightarrow> 'v option \<times> ('k, 'v) DictTableModel" where
  "DictTableModel_pop key m =
     (case storage m key of
        Some old \<Rightarrow> (Some old, m\<lparr>storage := (storage m)(key := None)\<rparr>)
      | None \<Rightarrow> (None, m))"

text \<open>
  Modelled from the spec: \<^verbatim>\<open>ListTableModel.append\<close>, not among the sources: the new
  element is appended to the listing.
\<close>

definition ListTableModel_append :: "'a \<Rightarrow> 'a list \<Rightarrow> 'a list" where
  "ListTableModel_append x xs = xs @ [x]"

section \<open>core/remote.py\<close>

text \<open>
  \<^verbatim>\<open>RemoteModule\<close>: the client-side handle, with the three attributes its constructor
  sets (\<open>rname\<close> for \<^verbatim>\<open>name\<close>). The connection is identified by the host and port
  it was opened with.
\<close>

record RemoteModule =
  connection :: "pyval \<times> pyval"
  module :: pyval
  rname :: string

text \<open>
  \<^verbatim>\<open>RemoteObjectManager\<close>. The thread manager and the server thread play no part in the
  registry operations and are left out; \<open>logger\<close> is the log that \<^verbatim>\<open>self.logger.logMsg\<close>
  writes to. \<open>remoteModules\<close> holds the storage of the \<^verbatim>\<open>ListTableModel\<close> and
  \<open>remoteHeaders\<close> its headers.
\<close>

record RemoteObjectManager =
  hostname :: string
  logger :: logger
  remoteModules :: "RemoteModule list"
  remoteHeaders :: "string list"
  sharedModules :: "(string, pyval) DictTableModel"

definition RemoteObjectManager_init :: "string \<Rightarrow> logger \<Rightarrow> RemoteObjectManager" where
  "RemoteObjectManager_init host lg =
     \<lparr>hostname = host, logger = lg, remoteModules = [],
      remoteHeaders = [''Remote Modules''],
      sharedModules = DictTableModel_init\<lparr>headers := [''Shared Modules'']\<rparr>\<rparr>"

text \<open>
  \<^verbatim>\<open>RemoteModuleService\<close>. The service class made by \<^verbatim>\<open>makeRemoteService\<close> binds
  \<^verbatim>\<open>modules\<close> to the manager's \<^verbatim>\<open>sharedModules\<close> object and \<^verbatim>\<open>logMsg\<close> to the manager's
  logger, both by reference, so a request reads the manager's current registry and
  writes the manager's log: the methods of the service take and return the manager.
\<close>

definition on_connect :: "RemoteObjectManager \<Rightarrow> RemoteObjectManager" where
  "on_connect self = self\<lparr>logger := logMsg ''Client connected!'' [] None (logger self)\<rparr>"

definition on_disconnect :: "RemoteObjectManager \<Rightarrow> RemoteObjectManager" where
  "on_disconnect self = self\<lparr>logger := logMsg ''Client disconnected!'' [] None (logger self)\<rparr>"

definition exposed_getModule ::
  "string \<Rightarrow> RemoteObjectManager \<Rightarrow> pyval \<times> RemoteObjectManager" where
  "exposed_getModule nm self =
     (case storage (sharedModules self) nm of
        Some obj \<Rightarrow> (obj, self)
      | None \<Rightarrow>
          (PyNone,
           self\<lparr>logger := logMsg ''Client requested a module that is not shared.'' []
                              (Some ''error'') (logger self)\<rparr>))"

definition shareModule :: "string \<Rightarrow> pyval \<Rightarrow> RemoteObjectManager \<Rightarrow> RemoteObjectManager" where
  "shareModule nm obj self =
     (let self1 =
            (if storage (sharedModules self) nm \<noteq> None
             then self\<lparr>logger := logMsg ''Module {0} already shared.'' [PyStr nm]
                                     (Some ''warning'') (logger self)\<rparr>
             else self);
          self2 = self1\<lparr>sharedModules := snd (DictTableModel_add nm obj (sharedModules self1))\<rparr>
      in self2\<lparr>logger := logMsg ''Shared module {0}.'' [PyStr nm] (Some ''status'')
                           (logger self2)\<rparr>)"

definition unshareModule :: "string \<Rightarrow> RemoteObjectManager \<Rightarrow> RemoteObjectManager" where
  "unshareModule nm self =
     (let self1 =
            (if storage (sharedModules self) nm \<noteq> None
             then self\<lparr>logger := logMsg ''Module {0} was not shared.'' [PyStr nm]
                                     (Some ''error'') (logger self)\<rparr>
             else self)
      in self1\<lparr>sharedModules := snd (DictTableModel_pop nm (sharedModules self1))\<rparr>)"

text \<open>
  The network as the client sees it: for the host and port handed to \<^verbatim>\<open>rpyc.connect\<close>
  (whatever values they are), the manager that serves there, if any; each is another
  manager than the client itself. The remote procedure call library is outside the
  repository; of it the model keeps that \<^verbatim>\<open>rpyc.connect\<close> raises where nothing serves,
  that a new connection runs the service's \<^verbatim>\<open>on_connect\<close>, and that
  \<^verbatim>\<open>connection.root.getModule(name)\<close> runs the service's \<^verbatim>\<open>exposed_getModule\<close> at the
  server and hands its result back. The handle keeps its connection open.
\<close>

type_synonym network = "pyval \<times> pyval \<rightharpoonup> RemoteObjectManager"

definition RemoteModule_init ::
  "pyval \<Rightarrow> pyval \<Rightarrow> string \<Rightarrow> network \<Rightarrow> (exn + RemoteModule) \<times> network" where
  "RemoteModule_init host prt nm net =
     (case net (host, prt) of
        None \<Rightarrow> (Inl ConnectionRefusedError, net)
      | Some srv \<Rightarrow>
          (let (m, srv') = exposed_getModule nm (on_connect srv)
           in (Inr \<lparr>connection = (host, prt), module = m, rname = nm\<rparr>,
               net((host, prt) \<mapsto> srv'))))"

definition getRemoteModule ::
  "pyval \<Rightarrow> pyval \<Rightarrow> string \<Rightarrow> RemoteObjectManager \<Rightarrow> network
     \<Rightarrow> (exn + pyval) \<times> RemoteObjectManager \<times> network" where
  "getRemoteModule host prt nm self net =
     (case RemoteModule_init host prt nm net of
        (Inl e, net') \<Rightarrow> (Inl e, self, net')
      | (Inr rm, net') \<Rightarrow>
          (Inr (module rm),
           self\<lparr>remoteModules := ListTableModel_append rm (remoteModules self)\<rparr>, net'))"

text \<open>
  \<^verbatim>\<open>urlparse\<close> belongs to the standard library and enters as a parameter. It raises for
  some strings; otherwise its result is read through three components: \<^verbatim>\<open>path\<close>, a
  string; \<^verbatim>\<open>hostname\<close>, a string or \<^verbatim>\<open>None\<close>; and \<^verbatim>\<open>port\<close>, an integer or \<^verbatim>\<open>None\<close>, or
  a \<^verbatim>\<open>ValueError\<close> raised on reading it when the port of the URL is no number in range.
  The method reads the path first, then the host name and the port as arguments of the
  call. \<^verbatim>\<open>str.replace('/', '')\<close> removes every occurrence of the slash.
\<close>

record ParseResult =
  parsed_hostname :: pyval
  parsed_port :: "exn + pyval"
  parsed_path :: string

definition getRemoteModuleUrl ::
  "(string \<Rightarrow> exn + ParseResult) \<Rightarrow> string \<Rightarrow> RemoteObjectManager \<Rightarrow> network
     \<Rightarrow> (exn + pyval) \<times> RemoteObjectManager \<times> network" where
  "getRemoteModuleUrl urlparse url self net =
     (case urlparse url of
        Inl e \<Rightarrow> (Inl e, self, net)
      | Inr parsed \<Rightarrow>
          (let nm = filter (\<lambda>c. c \<noteq> CHR ''/'') (parsed_path parsed)
           in case parsed_port parsed of
                Inl e \<Rightarrow> (Inl e, self, net)
              | Inr prt \<Rightarrow> getRemoteModule (parsed_hostname parsed) prt nm self net))"

section \<open>logic/generic_logic.py: the interruptable task\<close>

text \<open>
  An instance of \<^verbatim>\<open>InterruptableTask\<close> is its attribute dictionary together with the
  event table held by the state machine part. Reading an attribute looks in the
  instance dictionary, then among the members of the class; a name found in neither
  raises \<^verbatim>\<open>AttributeError\<close>. The class members are those of the class body, and
  \<^verbatim>\<open>can\<close>, inherited from the state machine library and used by \<^verbatim>\<open>canPause\<close>; the
  other inherited members of \<^verbatim>\<open>QObject\<close> and \<^verbatim>\<open>Fysom\<close> carry names that no
  method modelled here reads.
\<close>

record InterruptableTask =
  attrs :: "string \<rightharpoonup> pyval"
  fsm_map :: "(string \<times> string \<times> string) list"

definition InterruptableTask_members :: "string \<rightharpoonup> pyval" where
  "InterruptableTask_members =
     [''__init__'' \<mapsto> PyMethod ''__init__'',
      ''sigPaused'' \<mapsto> PySignal ''sigPaused'',
      ''sigResumed'' \<mapsto> PySignal ''sigResumed'',
      ''sigExecutionStarted'' \<mapsto> PySignal ''sigExecutionStarted'',
      ''sigExecutionFinished'' \<mapsto> PySignal ''sigExecutionFinished'',
      ''makeInterruptable'' \<mapsto> PyMethod ''makeInterruptable'',
      ''_run'' \<mapsto> PyMethod ''_run'',
      ''_pause'' \<mapsto> PyMethod ''_pause'',
      ''_resume'' \<mapsto> PyMethod ''_resume'',
      ''_finish'' \<mapsto> PyMethod ''_finish'',
      ''canPause'' \<mapsto> PyMethod ''canPause'',
      ''can'' \<mapsto> PyMethod ''can'']"

definition getattr :: "InterruptableTask \<Rightarrow> string \<Rightarrow> exn + pyval" where
  "getattr self n =
     (case attrs self n of
        Some v \<Rightarrow> Inr v
      | None \<Rightarrow>
          (case InterruptableTask_members n of
             Some v \<Rightarrow> Inr v
           | None \<Rightarrow> Inl (AttributeError n)))"

definition setattr :: "InterruptableTask \<Rightarrow> string \<Rightarrow> pyval \<Rightarrow> InterruptableTask" where
  "setattr self n v = self\<lparr>attrs := (attrs self)(n \<mapsto> v)\<rparr>"

fun callable :: "pyval \<Rightarrow> bool" where
  "callable (PyFunc f) = True"
| "callable (PyMethod m) = True"
| "callable (PyEvent e) = True"
| "callable v = False"

fun truthy :: "pyval \<Rightarrow> bool" where
  "truthy PyNone = False"
| "truthy (PyBool b) = b"
| "truthy (PyInt i) = (i \<noteq> 0)"
| "truthy (PyStr s) = (s \<noteq> [])"
| "truthy (PyList xs) = (xs \<noteq> [])"
| "truthy (PyDict kvs) = (kvs \<noteq> [])"
| "truthy v = True"

text \<open>
  The state machine library \<^verbatim>\<open>fysom\<close> is not part of the repository. The sources call
  its constructor in one way only, \<^verbatim>\<open>Fysom.__init__(self)\<close>, with no configuration, and
  that call is what is modelled: the machine has no event, and \<^verbatim>\<open>current\<close> holds the
  library's state \<^verbatim>\<open>none\<close>. (A release of the library whose constructor demands the
  configuration raises at such a call; the events of a table that is not handed over
  exist in neither case.) An event \<open>(name, src, dst)\<close> of a machine is fired through an
  attribute of the instance under the event's name.
\<close>

definition Fysom_init :: InterruptableTask where
  "Fysom_init = \<lparr>attrs = [''current'' \<mapsto> PyStr ''none''], fsm_map = []\<rparr>"

text \<open>\<^verbatim>\<open>Fysom.can(event)\<close>: the event is defined with the current state as a source.\<close>

definition Fysom_can :: "InterruptableTask \<Rightarrow> string \<Rightarrow> exn + bool" where
  "Fysom_can self ev =
     (case getattr self ''current'' of
        Inl x \<Rightarrow> Inl x
      | Inr c \<Rightarrow> Inr (find (\<lambda>(n, s, d). n = ev \<and> PyStr s = c) (fsm_map self) \<noteq> None))"

text \<open>
  Calling the event method \<open>ev\<close> of a task, as in \<^verbatim>\<open>task.run()\<close>: the attribute is
  looked up first; an event that the current state does not allow raises the library's
  error and leaves the state as it is.
\<close>

definition fire :: "string \<Rightarrow> InterruptableTask \<Rightarrow> exn + InterruptableTask" where
  "fire ev self =
     (case getattr self ev of
        Inl x \<Rightarrow> Inl x
      | Inr m \<Rightarrow>
          (case m of
             PyEvent e \<Rightarrow>
               (case getattr self ''current'' of
                  Inl x \<Rightarrow> Inl x
                | Inr c \<Rightarrow>
                    (case find (\<lambda>(n, s, d). n = e \<and> PyStr s = c) (fsm_map self) of
                       None \<Rightarrow> Inl (FysomError e)
                     | Some (n, s, d) \<Rightarrow> Inr (setattr self ''current'' (PyStr d))))
           | _ \<Rightarrow> Inl (TypeError ev)))"

text \<open>
  \<^verbatim>\<open>InterruptableTask.__init__\<close>. The state list with the initial state, the
  transition table and the callbacks is built in a local variable; the state machine
  constructor is then called with no argument. The \<^verbatim>\<open>kwargs\<close> parameter is not stored.
\<close>

record stateList =
  initial :: string
  events :: "(string \<times> string \<times> string) list"
  callbacks :: "(string \<times> string) list"

definition InterruptableTask_stateList :: stateList where
  "InterruptableTask_stateList =
     \<lparr>initial = ''stopped'',
      events =
        [(''run'', ''stopped'', ''running''),
         (''pause'', ''running'', ''paused''),
         (''finish'', ''running'', ''stopped''),
         (''resume'', ''paused'', ''running'')],
      callbacks =
        [(''run'', ''_run''), (''pause'', ''_pause''),
         (''resume'', ''_resume''), (''finish'', ''_finish'')]\<rparr>"

definition InterruptableTask_init ::
  "string \<Rightarrow> pyval \<Rightarrow> pyval \<Rightarrow> pyval \<Rightarrow> InterruptableTask" where
  "InterruptableTask_init nm function args kwargs =
     (let stateList = InterruptableTask_stateList;
          self0 = Fysom_init;
          self1 = setattr self0 ''lock'' PyMutex;
          self2 = setattr self1 ''name'' (PyStr nm);
          self3 = setattr self2 ''func'' function;
          self4 = setattr self3 ''args'' args;
          self5 = setattr self4 ''interruptable'' (PyBool False)
      in setattr self5 ''success'' (PyBool False))"

text \<open>
  \<^verbatim>\<open>TaskResult\<close>: the attributes \<^verbatim>\<open>data\<close> and \<^verbatim>\<open>success\<close>, both \<^verbatim>\<open>None\<close> at first, and the
  one method \<^verbatim>\<open>updata(data, success=None)\<close>. \<open>invoke n args r\<close> is the call
  \<^verbatim>\<open>r.n(*args)\<close> on a value \<open>r\<close>, giving the receiver after the call.
\<close>

definition TaskResult_init :: pyval where
  "TaskResult_init = PyTaskResult PyNone PyNone"

fun invoke :: "string \<Rightarrow> pyval list \<Rightarrow> pyval \<Rightarrow> exn + pyval" where
  "invoke n args (PyTaskResult d s) =
     (if n = ''updata'' then
        (case args of
           [d'] \<Rightarrow> Inr (PyTaskResult d' PyNone)
         | [d', s'] \<Rightarrow> Inr (PyTaskResult d' s')
         | _ \<Rightarrow> Inl (TypeError n))
      else if n = ''data'' \<or> n = ''success'' then Inl (TypeError n)
      else Inl (AttributeError n))"
| "invoke n args v = Inl (AttributeError n)"

text \<open>\<^verbatim>\<open>self.result.update(None, False)\<close>, as written in the transition callbacks.\<close>

definition result_update :: "InterruptableTask \<Rightarrow> (exn + unit) \<times> InterruptableTask" where
  "result_update self =
     (case getattr self ''result'' of
        Inl x \<Rightarrow> (Inl x, self)
      | Inr r \<Rightarrow>
          (case invoke ''update'' [PyNone, PyBool False] r of
             Inl x \<Rightarrow> (Inl x, self)
           | Inr r' \<Rightarrow> (Inr (), setattr self ''result'' r')))"

text \<open>
  \<^verbatim>\<open>InterruptableTask._run\<close>. \<open>call f a k\<close> is the behaviour of the callable \<open>f\<close> on the
  positional arguments \<open>a\<close> and keyword arguments \<open>k\<close>: a value or a raised exception.
  Every exception of the model is an \<^verbatim>\<open>Exception\<close>, so the handler catches each one
  raised in the body; an exception raised in the handler leaves the method.
\<close>

definition run_body ::
  "(pyval \<Rightarrow> pyval \<Rightarrow> pyval \<Rightarrow> exn + pyval) \<Rightarrow> InterruptableTask
     \<Rightarrow> (exn + unit) \<times> InterruptableTask" where
  "run_body call self =
     (case getattr self ''function'' of
        Inl x \<Rightarrow> (Inl x, self)
      | Inr f \<Rightarrow>
          if callable f then
            (case getattr self ''args'' of
               Inl x \<Rightarrow> (Inl x, self)
             | Inr a \<Rightarrow>
                 (case getattr self ''kwargs'' of
                    Inl x \<Rightarrow> (Inl x, self)
                  | Inr k \<Rightarrow>
                      (case call f a k of
                         Inl x \<Rightarrow> (Inl x, self)
                       | Inr v \<Rightarrow> (Inr (), self))))
          else result_update self)"

definition run_handler ::
  "(pyval \<Rightarrow> pyval \<Rightarrow> pyval \<Rightarrow> exn + pyval) \<Rightarrow> exn \<Rightarrow> InterruptableTask
     \<Rightarrow> (exn + unit) \<times> InterruptableTask" where
  "run_handler call e self =
     (case getattr self ''logMsg'' of
        Inl x \<Rightarrow> (Inl x, self)
      | Inr lm \<Rightarrow>
          (case getattr self ''name'' of
             Inl x \<Rightarrow> (Inl x, self)
           | Inr nm \<Rightarrow>
               (case call lm (PyList [PyFormat ''Exception during task {}. {}'' [nm, PyExc e]])
                       (PyDict [(''msgType'', PyStr ''error'')]) of
                  Inl x \<Rightarrow> (Inl x, self)
                | Inr v \<Rightarrow> result_update self)))"

definition InterruptableTask_run ::
  "(pyval \<Rightarrow> pyval \<Rightarrow> pyval \<Rightarrow> exn + pyval) \<Rightarrow> InterruptableTask
     \<Rightarrow> (exn + unit) \<times> InterruptableTask" where
  "InterruptableTask_run call self =
     (let self1 = setattr self ''result'' TaskResult_init
      in case run_body call self1 of
           (Inr u, self2) \<Rightarrow> (Inr (), self2)
         | (Inl e, self2) \<Rightarrow> run_handler call e self2)"

definition makeInterruptable ::
  "pyval \<Rightarrow> pyval \<Rightarrow> InterruptableTask \<Rightarrow> (exn + unit) \<times> InterruptableTask" where
  "makeInterruptable pausefunction resumefunction self =
     (case getattr self ''pausefunction'' of
        Inl x \<Rightarrow> (Inl x, self)
      | Inr p \<Rightarrow>
          if callable p \<and> callable resumefunction then
            (let self1 = setattr self ''pausefunction'' pausefunction;
                 self2 = setattr self1 ''resumefuncion'' resumefunction
             in (Inr (), setattr self2 ''interruptable'' (PyBool True)))
          else (Inr (), self))"

text \<open>
  \<^verbatim>\<open>canPause\<close>: Python's \<^verbatim>\<open>and\<close> gives the left operand when it is false and does not
  evaluate the right one.
\<close>

definition canPause :: "InterruptableTask \<Rightarrow> exn + pyval" where
  "canPause self =
     (case getattr self ''interruptable'' of
        Inl x \<Rightarrow> Inl x
      | Inr i \<Rightarrow>
          if truthy i then
            (case Fysom_can self ''pause'' of Inl x \<Rightarrow> Inl x | Inr b \<Rightarrow> Inr (PyBool b))
          else Inr i)"

section \<open>logic/generic_logic.py: the task registry\<close>

text \<open>
  \<^verbatim>\<open>_tasks\<close> is assigned once, in the body of class \<^verbatim>\<open>GenericLogic\<close>; no method assigns
  \<^verbatim>\<open>self._tasks\<close>. The class attribute therefore lives in the state shared by all
  instances, next to the number of mutexes created so far (a new \<^verbatim>\<open>Mutex()\<close> is a new
  object, identified by its number) and the log written by \<^verbatim>\<open>self.logMsg\<close>. An
  instance holds what \<^verbatim>\<open>__init__\<close> gives it: the module name kept by the base class and
  its own \<^verbatim>\<open>taskLock\<close>.
\<close>

record LogicWorld =
  cls_tasks :: "(pyval, InterruptableTask) DictTableModel"
  mutexes :: nat
  modlog :: logger

record GenericLogic =
  modname :: string
  taskLock :: nat

definition GenericLogic_init :: "string \<Rightarrow> LogicWorld \<Rightarrow> GenericLogic \<times> LogicWorld" where
  "GenericLogic_init nm w =
     (\<lparr>modname = nm, taskLock = mutexes w\<rparr>, w\<lparr>mutexes := Suc (mutexes w)\<rparr>)"

text \<open>
  \<^verbatim>\<open>self._tasks\<close>, read through an instance: the instance has no attribute of that
  name, so the lookup gives the class attribute.
\<close>

definition tasks_of ::
  "GenericLogic \<Rightarrow> LogicWorld \<Rightarrow> (pyval, InterruptableTask) DictTableModel" where
  "tasks_of self w = cls_tasks w"

text \<open>
  \<^verbatim>\<open>registerTask\<close>. Holding \<^verbatim>\<open>self.taskLock\<close> has no effect on a sequential run. The
  result is the returned integer, or the exception of reading \<^verbatim>\<open>task.name\<close>.
\<close>

definition registerTask ::
  "GenericLogic \<Rightarrow> InterruptableTask \<Rightarrow> LogicWorld \<Rightarrow> (exn + int) \<times> LogicWorld" where
  "registerTask self task w =
     (case getattr task ''name'' of
        Inl x \<Rightarrow> (Inl x, w)
      | Inr nm \<Rightarrow>
          (case DictTableModel_add nm task (tasks_of self w) of
             (None, m) \<Rightarrow>
               (Inr (- 1),
                w\<lparr>cls_tasks := m,
                  modlog := logMsg
                    ''Could not register task {} because a task is already registered with this name.''
                    [nm] (Some ''error'') (modlog w)\<rparr>)
           | (Some k, m) \<Rightarrow> (Inr 0, w\<lparr>cls_tasks := m\<rparr>)))"

section \<open>Sample data\<close>

definition not_shared_entry :: logentry where
  "not_shared_entry =
     \<lparr>msgType = Some ''error'', template = ''Client requested a module that is not shared.'',
      fmtargs = []\<rparr>"

definition connected_entry :: logentry where
  "connected_entry = \<lparr>msgType = None, template = ''Client connected!'', fmtargs = []\<rparr>"

definition lab_manager :: RemoteObjectManager where
  "lab_manager = shareModule ''laser'' (PyObj 1) (RemoteObjectManager_init ''lab1'' [])"

definition lab_server :: RemoteObjectManager where
  "lab_server = shareModule ''ab'' (PyObj 7) lab_manager"

definition lab_network :: network where
  "lab_network = [(PyStr ''lab1'', PyInt 12345) \<mapsto> lab_server]"

definition desk_manager :: RemoteObjectManager where
  "desk_manager = RemoteObjectManager_init ''desk'' []"

text \<open>The server, the network and the client after one request for \<^verbatim>\<open>camera\<close>.\<close>

definition lab_server_once :: RemoteObjectManager where
  "lab_server_once = lab_server\<lparr>logger := logger lab_server @ [connected_entry, not_shared_entry]\<rparr>"

definition lab_network_once :: network where
  "lab_network_once = lab_network((PyStr ''lab1'', PyInt 12345) \<mapsto> lab_server_once)"

definition desk_once :: RemoteObjectManager where
  "desk_once =
     desk_manager\<lparr>remoteModules := remoteModules desk_manager @
       [\<lparr>connection = (PyStr ''lab1'', PyInt 12345), module = PyNone, rname = ''camera''\<rparr>]\<rparr>"

text \<open>
  A stand-in for \<^verbatim>\<open>urlparse\<close> that agrees with it on the two URLs used below: for
  \<^verbatim>\<open>rpyc://lab1:12345/a/b\<close> the host name \<^verbatim>\<open>lab1\<close>, the port \<^verbatim>\<open>12345\<close> and the path
  \<^verbatim>\<open>/a/b\<close>; for \<^verbatim>\<open>rpyc://lab1:12345/laser\<close> the same host name and port and the path
  \<^verbatim>\<open>/laser\<close>.
\<close>

definition urlparse_sample :: "string \<Rightarrow> exn + ParseResult" where
  "urlparse_sample url =
     (if url = ''rpyc://lab1:12345/a/b''
      then Inr \<lparr>parsed_hostname = PyStr ''lab1'', parsed_port = Inr (PyInt 12345),
                parsed_path = ''/a/b''\<rparr>
      else Inr \<lparr>parsed_hostname = PyStr ''lab1'', parsed_port = Inr (PyInt 12345),
                parsed_path = ''/laser''\<rparr>)"

definition sample_task :: InterruptableTask where
  "sample_task = InterruptableTask_init ''scan'' (PyFunc 0) (PyList []) (PyDict [])"

definition other_task :: InterruptableTask where
  "other_task = InterruptableTask_init ''scan'' (PyFunc 1) (PyList [PyInt 3]) (PyDict [])"

definition already_registered_entry :: "pyval \<Rightarrow> logentry" where
  "already_registered_entry nm =
     \<lparr>msgType = Some ''error'',
      template =
        ''Could not register task {} because a task is already registered with this name.'',
      fmtargs = [nm]\<rparr>"

definition new_world :: LogicWorld where
  "new_world = \<lparr>cls_tasks = DictTableModel_init, mutexes = 0, modlog = []\<rparr>"

definition registered_world :: LogicWorld where
  "registered_world =
     \<lparr>cls_tasks = \<lparr>headers = [''Name''], storage = [PyStr ''scan'' \<mapsto> sample_task]\<rparr>,
      mutexes = 1, modlog = []\<rparr>"

definition scanner_logic :: GenericLogic where
  "scanner_logic = \<lparr>modname = ''scanner'', taskLock = 0\<rparr>"

definition counter_logic :: GenericLogic where
  "counter_logic = \<lparr>modname = ''counter'', taskLock = 1\<rparr>"

text \<open>A work callable that raises whatever it is called with.\<close>

definition failing_call :: "pyval \<Rightarrow> pyval \<Rightarrow> pyval \<Rightarrow> exn + pyval" where
  "failing_call f a k = Inl (Raised ''boom'')"

section \<open>Properties of the shared-module registry\<close>

lemma storage_shareModule_fresh:
  "storage (sharedModules self) nm = None \<Longrightarrow>
     storage (sharedModules (shareModule nm obj self)) = (storage (sharedModules self))(nm \<mapsto> obj)"
  by (simp add: shareModule_def DictTableModel_add_def Let_def)

lemma storage_unshareModule:
  "storage (sharedModules (unshareModule nm self)) = (storage (sharedModules self))(nm := None)"
  by (auto simp: unshareModule_def DictTableModel_pop_def Let_def split: option.splits)

lemma storage_new_manager:
  "storage (sharedModules (RemoteObjectManager_init host lg)) = Map.empty"
  by (simp add: RemoteObjectManager_init_def DictTableModel_init_def)

lemma storage_lab_manager:
  "storage (sharedModules lab_manager) = [''laser'' \<mapsto> PyObj 1]"
  by (simp add: lab_manager_def storage_shareModule_fresh storage_new_manager)

lemma storage_lab_server:
  "storage (sharedModules lab_server) = [''laser'' \<mapsto> PyObj 1, ''ab'' \<mapsto> PyObj 7]"
  by (simp add: lab_server_def storage_shareModule_fresh storage_lab_manager)

lemma exposed_getModule_absent:
  "storage (sharedModules self) nm = None \<Longrightarrow>
     exposed_getModule nm self = (PyNone, self\<lparr>logger := logger self @ [not_shared_entry]\<rparr>)"
  by (simp add: exposed_getModule_def logMsg_def not_shared_entry_def)

text \<open>
  C4. A \<^verbatim>\<open>getModule\<close> request for a name that is not in the registry returns
  \<^verbatim>\<open>None\<close>, appends one error entry to the log and changes nothing else (the result is
  a value: the function has no raising path); a request for a name in the registry
  returns the stored object and changes nothing.
\<close>

theorem exposed_getModule_outcomes:
  "(storage (sharedModules self) nm = None \<longrightarrow>
      exposed_getModule nm self =
        (PyNone, self\<lparr>logger := logger self @ [not_shared_entry]\<rparr>))
   \<and> (\<forall>obj. storage (sharedModules self) nm = Some obj \<longrightarrow>
        exposed_getModule nm self = (obj, self))"
  by (simp add: exposed_getModule_def logMsg_def not_shared_entry_def)

theorem exposed_getModule_outcomes_witness:
  "storage (sharedModules lab_manager) ''camera'' = None
   \<and> exposed_getModule ''camera'' lab_manager =
       (PyNone, lab_manager\<lparr>logger := logger lab_manager @ [not_shared_entry]\<rparr>)
   \<and> storage (sharedModules lab_manager) ''laser'' = Some (PyObj 1)
   \<and> exposed_getModule ''laser'' lab_manager = (PyObj 1, lab_manager)"
  using exposed_getModule_outcomes [of lab_manager "''camera''"]
    exposed_getModule_outcomes [of lab_manager "''laser''"]
  by (simp add: storage_lab_manager)

lemma unshareModule_absent:
  "storage (sharedModules self) nm = None \<Longrightarrow> unshareModule nm self = self"
  by (simp add: unshareModule_def DictTableModel_pop_def)

lemma unshareModule_present:
  "storage (sharedModules self) nm = Some obj \<Longrightarrow>
     logger (unshareModule nm self) =
       logger self @ [\<lparr>msgType = Some ''error'', template = ''Module {0} was not shared.'',
                       fmtargs = [PyStr nm]\<rparr>]
     \<and> storage (sharedModules (unshareModule nm self)) = (storage (sharedModules self))(nm := None)"
  by (simp add: unshareModule_def DictTableModel_pop_def logMsg_def)

text \<open>
  C6. The diagnostic of \<^verbatim>\<open>unshareModule\<close> is written under the opposite condition:
  unsharing \<^verbatim>\<open>camera\<close>, which is not in the registry, leaves the log as it was, and
  unsharing \<^verbatim>\<open>laser\<close>, which is in the registry, appends the error entry saying that
  the module was not shared (and removes the entry).
\<close>

theorem unshareModule_diagnostic_inverted:
  "logger (unshareModule ''camera'' lab_manager) = logger lab_manager
   \<and> logger (unshareModule ''laser'' lab_manager) =
       logger lab_manager @
         [\<lparr>msgType = Some ''error'', template = ''Module {0} was not shared.'',
           fmtargs = [PyStr ''laser'']\<rparr>]
   \<and> storage (sharedModules (unshareModule ''laser'' lab_manager)) ''laser'' = None"
  using unshareModule_absent [of lab_manager "''camera''"]
    unshareModule_present [of lab_manager "''laser''" "PyObj 1"]
  by (simp add: storage_lab_manager)

text \<open>
  A name is absent from the registry of a new manager, and stays absent through every
  operation of the manager and of its service other than sharing that name: sharing
  another name, unsharing any name, and a connection, a request or a disconnection of a
  client.
\<close>

lemma absent_shareModule_other:
  "n \<noteq> nm \<Longrightarrow> storage (sharedModules self) nm = None \<Longrightarrow>
     storage (sharedModules (shareModule n obj self)) nm = None"
  by (simp add: shareModule_def DictTableModel_add_def Let_def split: option.splits)

lemma absent_unshareModule:
  "storage (sharedModules self) nm = None \<Longrightarrow>
     storage (sharedModules (unshareModule n self)) nm = None"
  by (simp add: storage_unshareModule)

lemma sharedModules_service:
  "sharedModules (on_connect self) = sharedModules self"
  "sharedModules (on_disconnect self) = sharedModules self"
  "sharedModules (snd (exposed_getModule n self)) = sharedModules self"
  by (simp_all add: on_connect_def on_disconnect_def exposed_getModule_def split: option.splits)

section \<open>Properties of the client side\<close>

text \<open>
  C8. Let a manager serve where the client connects, with the requested name absent
  from its registry, as is every name the manager never shared. Then
  \<^verbatim>\<open>getRemoteModule\<close> returns \<^verbatim>\<open>None\<close> as a value (no exception), the handle appended
  to the client's remote-module list has the module \<^verbatim>\<open>None\<close>, and the server's log gains
  the connection entry and the not-shared error, the server being otherwise unchanged.
\<close>

theorem getRemoteModule_not_shared:
  assumes "net (host, prt) = Some srv"
    and "storage (sharedModules srv) nm = None"
  shows "getRemoteModule host prt nm self net =
     (Inr PyNone,
      self\<lparr>remoteModules := remoteModules self @
         [\<lparr>connection = (host, prt), module = PyNone, rname = nm\<rparr>]\<rparr>,
      net((host, prt) \<mapsto> srv\<lparr>logger := logger srv @ [connected_entry, not_shared_entry]\<rparr>))"
proof -
  have "storage (sharedModules (on_connect srv)) nm = None"
    using assms(2) by (simp add: sharedModules_service)
  then have "exposed_getModule nm (on_connect srv) =
      (PyNone, (on_connect srv)\<lparr>logger := logger (on_connect srv) @ [not_shared_entry]\<rparr>)"
    by (rule exposed_getModule_absent)
  with assms(1) show ?thesis
    by (simp add: getRemoteModule_def RemoteModule_init_def on_connect_def logMsg_def
        connected_entry_def ListTableModel_append_def)
qed

text \<open>
  The witness asks the server of the sample network for \<^verbatim>\<open>camera\<close> twice: the second
  request meets the server as the first connection left it.
\<close>

theorem getRemoteModule_not_shared_witness:
  "lab_network (PyStr ''lab1'', PyInt 12345) = Some lab_server
   \<and> storage (sharedModules lab_server) ''camera'' = None
   \<and> getRemoteModule (PyStr ''lab1'') (PyInt 12345) ''camera'' desk_manager lab_network =
       (Inr PyNone, desk_once, lab_network_once)
   \<and> getRemoteModule (PyStr ''lab1'') (PyInt 12345) ''camera'' desk_once lab_network_once =
       (Inr PyNone,
        desk_once\<lparr>remoteModules := remoteModules desk_once @
          [\<lparr>connection = (PyStr ''lab1'', PyInt 12345), module = PyNone, rname = ''camera''\<rparr>]\<rparr>,
        lab_network_once((PyStr ''lab1'', PyInt 12345) \<mapsto>
          lab_server_once\<lparr>logger := logger lab_server_once @
            [connected_entry, not_shared_entry]\<rparr>))"
proof -
  have n: "lab_network (PyStr ''lab1'', PyInt 12345) = Some lab_server"
    by (simp add: lab_network_def)
  have a: "storage (sharedModules lab_server) ''camera'' = None"
    by (simp add: storage_lab_server)
  have n1: "lab_network_once (PyStr ''lab1'', PyInt 12345) = Some lab_server_once"
    by (simp add: lab_network_once_def)
  have a1: "storage (sharedModules lab_server_once) ''camera'' = None"
    by (simp add: lab_server_once_def storage_lab_server)
  show ?thesis
    using n a
      getRemoteModule_not_shared
        [where net = lab_network and host = "PyStr ''lab1''" and prt = "PyInt 12345"
           and srv = lab_server and nm = "''camera''" and self = desk_manager]
      getRemoteModule_not_shared
        [where net = lab_network_once and host = "PyStr ''lab1''" and prt = "PyInt 12345"
           and srv = lab_server_once and nm = "''camera''" and self = desk_once]
      n1 a1
    by (simp add: desk_once_def lab_network_once_def lab_server_once_def)
qed

text \<open>
  C9, as stated, fails for a path with a further slash: for the URL
  \<^verbatim>\<open>rpyc://lab1:12345/a/b\<close> the claim has the name \<^verbatim>\<open>a/b\<close> requested, which the server
  does not share, while the method requests \<^verbatim>\<open>ab\<close>, which it shares.
\<close>

theorem getRemoteModuleUrl_counterexample:
  "fst (getRemoteModuleUrl urlparse_sample ''rpyc://lab1:12345/a/b'' desk_manager lab_network)
     \<noteq> fst (getRemoteModule (PyStr ''lab1'') (PyInt 12345) ''a/b'' desk_manager lab_network)"
  by (simp add: getRemoteModuleUrl_def urlparse_sample_def getRemoteModule_def
      RemoteModule_init_def lab_network_def exposed_getModule_def on_connect_def
      storage_lab_server Let_def)

text \<open>
  An exception of the parser, or of reading the port, leaves the method before
  anything is requested.
\<close>

lemma getRemoteModuleUrl_raises:
  "urlparse url = Inl e \<Longrightarrow> getRemoteModuleUrl urlparse url self net = (Inl e, self, net)"
  "urlparse url = Inr parsed \<Longrightarrow> parsed_port parsed = Inl e \<Longrightarrow>
     getRemoteModuleUrl urlparse url self net = (Inl e, self, net)"
  by (simp_all add: getRemoteModuleUrl_def)

text \<open>
  C9, amended. For every URL of the form \<^verbatim>\<open>scheme://host:port/name\<close>, that is, one that
  the parser splits into the host name \<open>host\<close>, the port \<open>prt\<close> and the path that is a
  slash followed by \<open>name\<close>: \<^verbatim>\<open>getRemoteModuleUrl\<close> delegates to \<^verbatim>\<open>getRemoteModule\<close>
  with \<open>host\<close>, \<open>prt\<close> and \<open>name\<close> without its slashes. That is \<open>name\<close> itself, the path
  with its leading slash stripped, when \<open>name\<close> has no slash, and another string when it
  has one.
\<close>

theorem getRemoteModuleUrl_delegates:
  assumes "urlparse url = Inr parsed"
    and "parsed_hostname parsed = PyStr host"
    and "parsed_port parsed = Inr (PyInt prt)"
    and "parsed_path parsed = CHR ''/'' # name"
  shows "getRemoteModuleUrl urlparse url self net =
           getRemoteModule (PyStr host) (PyInt prt) (filter (\<lambda>c. c \<noteq> CHR ''/'') name) self net
       \<and> (CHR ''/'' \<notin> set name \<longrightarrow>
            getRemoteModuleUrl urlparse url self net =
              getRemoteModule (PyStr host) (PyInt prt) name self net)
       \<and> (CHR ''/'' \<in> set name \<longrightarrow> filter (\<lambda>c. c \<noteq> CHR ''/'') name \<noteq> name)"
proof -
  have d: "getRemoteModuleUrl urlparse url self net =
      getRemoteModule (PyStr host) (PyInt prt) (filter (\<lambda>c. c \<noteq> CHR ''/'') name) self net"
    using assms by (simp add: getRemoteModuleUrl_def)
  have k: "filter (\<lambda>c. c \<noteq> CHR ''/'') name = name" if "CHR ''/'' \<notin> set name"
    using that by (auto simp: filter_id_conv)
  have c: "filter (\<lambda>c. c \<noteq> CHR ''/'') name \<noteq> name" if "CHR ''/'' \<in> set name"
    using that by (auto simp: filter_id_conv)
  from d k c show ?thesis by simp
qed

theorem getRemoteModuleUrl_delegates_witness:
  "urlparse_sample ''rpyc://lab1:12345/laser'' =
     Inr \<lparr>parsed_hostname = PyStr ''lab1'', parsed_port = Inr (PyInt 12345),
          parsed_path = CHR ''/'' # ''laser''\<rparr>
   \<and> CHR ''/'' \<notin> set ''laser''
   \<and> getRemoteModuleUrl urlparse_sample ''rpyc://lab1:12345/laser'' desk_manager lab_network =
       getRemoteModule (PyStr ''lab1'') (PyInt 12345) ''laser'' desk_manager lab_network
   \<and> fst (getRemoteModule (PyStr ''lab1'') (PyInt 12345) ''laser'' desk_manager lab_network)
       = Inr (PyObj 1)
   \<and> urlparse_sample ''rpyc://lab1:12345/a/b'' =
     Inr \<lparr>parsed_hostname = PyStr ''lab1'', parsed_port = Inr (PyInt 12345),
          parsed_path = CHR ''/'' # ''a/b''\<rparr>
   \<and> CHR ''/'' \<in> set ''a/b''
   \<and> getRemoteModuleUrl urlparse_sample ''rpyc://lab1:12345/a/b'' desk_manager lab_network =
       getRemoteModule (PyStr ''lab1'') (PyInt 12345) ''ab'' desk_manager lab_network"
proof -
  have p1: "urlparse_sample ''rpyc://lab1:12345/laser'' =
     Inr \<lparr>parsed_hostname = PyStr ''lab1'', parsed_port = Inr (PyInt 12345),
          parsed_path = CHR ''/'' # ''laser''\<rparr>"
    by (simp add: urlparse_sample_def)
  have p2: "urlparse_sample ''rpyc://lab1:12345/a/b'' =
     Inr \<lparr>parsed_hostname = PyStr ''lab1'', parsed_port = Inr (PyInt 12345),
          parsed_path = CHR ''/'' # ''a/b''\<rparr>"
    by (simp add: urlparse_sample_def)
  have g: "fst (getRemoteModule (PyStr ''lab1'') (PyInt 12345) ''laser'' desk_manager lab_network)
       = Inr (PyObj 1)"
    by (simp add: getRemoteModule_def RemoteModule_init_def lab_network_def
        exposed_getModule_def on_connect_def storage_lab_server)
  show ?thesis
    using p1 p2 g
      getRemoteModuleUrl_delegates
        [where urlparse = urlparse_sample and url = "''rpyc://lab1:12345/laser''"
           and host = "''lab1''" and prt = 12345 and name = "''laser''"
           and self = desk_manager and net = lab_network, OF p1]
      getRemoteModuleUrl_delegates
        [where urlparse = urlparse_sample and url = "''rpyc://lab1:12345/a/b''"
           and host = "''lab1''" and prt = 12345 and name = "''a/b''"
           and self = desk_manager and net = lab_network, OF p2]
    by simp
qed

section \<open>Properties of the interruptable task\<close>

lemma attrs_InterruptableTask_init:
  "attrs (InterruptableTask_init nm f a k) =
     [''current'' \<mapsto> PyStr ''none'', ''lock'' \<mapsto> PyMutex, ''name'' \<mapsto> PyStr nm,
      ''func'' \<mapsto> f, ''args'' \<mapsto> a, ''interruptable'' \<mapsto> PyBool False,
      ''success'' \<mapsto> PyBool False]"
  by (simp add: InterruptableTask_init_def Fysom_init_def setattr_def Let_def)

lemma fsm_map_InterruptableTask_init: "fsm_map (InterruptableTask_init nm f a k) = []"
  by (simp add: InterruptableTask_init_def Fysom_init_def setattr_def Let_def)

lemma getattr_init_name: "getattr (InterruptableTask_init nm f a k) ''name'' = Inr (PyStr nm)"
  by (simp add: getattr_def attrs_InterruptableTask_init)

lemma init_machine_has_no_table:
  "getattr (InterruptableTask_init nm f a k) ''current'' = Inr (PyStr ''none'')
   \<and> fsm_map (InterruptableTask_init nm f a k) = []
   \<and> fire ''run'' (InterruptableTask_init nm f a k) = Inl (AttributeError ''run'')
   \<and> fire ''pause'' (InterruptableTask_init nm f a k) = Inl (AttributeError ''pause'')
   \<and> fire ''resume'' (InterruptableTask_init nm f a k) = Inl (AttributeError ''resume'')
   \<and> fire ''finish'' (InterruptableTask_init nm f a k) = Inl (AttributeError ''finish'')"
  by (simp add: fire_def getattr_def attrs_InterruptableTask_init
      fsm_map_InterruptableTask_init InterruptableTask_members_def)

text \<open>
  C1. The constructor does not hand the state list to the state machine. The task
  \<^verbatim>\<open>InterruptableTask('scan', f)\<close> is in state \<^verbatim>\<open>none\<close>, not \<^verbatim>\<open>stopped\<close>, its machine
  has no event, and each of \<^verbatim>\<open>run\<close>, \<^verbatim>\<open>pause\<close>, \<^verbatim>\<open>resume\<close>, \<^verbatim>\<open>finish\<close> is an attribute
  error: no event of the table can be fired, from any state.
\<close>

theorem sample_task_has_no_table:
  "getattr sample_task ''current'' = Inr (PyStr ''none'')
   \<and> fsm_map sample_task = []
   \<and> fire ''run'' sample_task = Inl (AttributeError ''run'')
   \<and> fire ''pause'' sample_task = Inl (AttributeError ''pause'')
   \<and> fire ''resume'' sample_task = Inl (AttributeError ''resume'')
   \<and> fire ''finish'' sample_task = Inl (AttributeError ''finish'')"
  unfolding sample_task_def by (rule init_machine_has_no_table)

lemma run_callback_raises:
  "InterruptableTask_run call (InterruptableTask_init nm f a k) =
     (Inl (AttributeError ''logMsg''),
      setattr (InterruptableTask_init nm f a k) ''result'' (PyTaskResult PyNone PyNone))"
  by (simp add: InterruptableTask_run_def run_body_def run_handler_def getattr_def setattr_def
      attrs_InterruptableTask_init InterruptableTask_members_def TaskResult_init_def Let_def)

lemma result_update_raises:
  "getattr self ''result'' = Inr r \<Longrightarrow> result_update self = (Inl (AttributeError ''update''), self)"
  by (cases r) (simp_all add: result_update_def)

text \<open>
  Whatever attributes a task carries, \<^verbatim>\<open>_run\<close> leaves the fresh result untouched:
  its \<^verbatim>\<open>success\<close> stays \<^verbatim>\<open>None\<close>, since the only writes go through \<^verbatim>\<open>update\<close>, which
  \<^verbatim>\<open>TaskResult\<close> does not have.
\<close>

lemma run_never_records:
  "getattr (snd (InterruptableTask_run call self)) ''result'' = Inr (PyTaskResult PyNone PyNone)"
proof -
  let ?s = "setattr self ''result'' TaskResult_init"
  have g: "getattr ?s ''result'' = Inr (PyTaskResult PyNone PyNone)"
    by (simp add: getattr_def setattr_def TaskResult_init_def)
  have u: "result_update ?s = (Inl (AttributeError ''update''), ?s)"
    using g by (rule result_update_raises)
  have b: "snd (run_body call ?s) = ?s"
    by (simp add: run_body_def u split: sum.splits)
  have h: "snd (run_handler call e ?s) = ?s" for e
    by (simp add: run_handler_def u split: sum.splits)
  show ?thesis
    using b h g
    by (auto simp: InterruptableTask_run_def Let_def split: prod.splits sum.splits)
qed

text \<open>
  Whatever attributes a task carries and whatever the callables do, an exception raised
  in the body of \<^verbatim>\<open>_run\<close> is followed by one raised in the handler: the handler ends
  in \<^verbatim>\<open>self.result.update\<close> at the latest.
\<close>

lemma run_handler_raises:
  assumes "getattr self ''result'' = Inr r"
  shows "\<exists>x. fst (run_handler call e self) = Inl x"
  using result_update_raises [OF assms]
  by (simp add: run_handler_def split: sum.splits)

lemma run_propagates_every_failure:
  assumes "fst (run_body call (setattr self ''result'' TaskResult_init)) = Inl e"
  shows "\<exists>x. fst (InterruptableTask_run call self) = Inl x"
proof -
  let ?s = "setattr self ''result'' TaskResult_init"
  have g: "getattr ?s ''result'' = Inr TaskResult_init"
    by (simp add: getattr_def setattr_def)
  have u: "result_update ?s = (Inl (AttributeError ''update''), ?s)"
    using g by (rule result_update_raises)
  have b: "snd (run_body call ?s) = ?s"
    by (simp add: run_body_def u split: sum.splits)
  then have "run_body call ?s = (Inl e, ?s)"
    using assms by (metis prod.collapse)
  then have "InterruptableTask_run call self = run_handler call e ?s"
    by (simp add: InterruptableTask_run_def Let_def)
  then show ?thesis
    using run_handler_raises [OF g] by simp
qed

text \<open>
  C2. For the task \<^verbatim>\<open>InterruptableTask('scan', f)\<close> with a work callable that raises,
  \<^verbatim>\<open>_run\<close> does not reach the callable: reading \<^verbatim>\<open>self.function\<close> raises (the constructor
  stored \<^verbatim>\<open>self.func\<close>), the handler catches that and raises itself on \<^verbatim>\<open>self.logMsg\<close>,
  which the class does not have. The attribute error leaves the method, nothing is
  logged, and the result keeps \<^verbatim>\<open>success = None\<close>.
\<close>

theorem run_callback_failing_work:
  "InterruptableTask_run failing_call sample_task =
     (Inl (AttributeError ''logMsg''),
      setattr sample_task ''result'' (PyTaskResult PyNone PyNone))"
  unfolding sample_task_def by (rule run_callback_raises)

lemma makeInterruptable_raises:
  "makeInterruptable pf rf (InterruptableTask_init nm f a k) =
     (Inl (AttributeError ''pausefunction''), InterruptableTask_init nm f a k)
   \<and> getattr (InterruptableTask_init nm f a k) ''interruptable'' = Inr (PyBool False)
   \<and> canPause (InterruptableTask_init nm f a k) = Inr (PyBool False)"
  by (simp add: makeInterruptable_def canPause_def getattr_def attrs_InterruptableTask_init
      InterruptableTask_members_def)

text \<open>
  C7. \<^verbatim>\<open>makeInterruptable\<close> tests \<^verbatim>\<open>self.pausefunction\<close>, an attribute that only its own
  body assigns, in place of its argument: on the task \<^verbatim>\<open>InterruptableTask('scan', f)\<close>
  the call with two callables raises an attribute error and leaves the task as it was,
  not interruptable; \<^verbatim>\<open>canPause\<close> reports false, and \<^verbatim>\<open>pause\<close> is no event of the task.
\<close>

theorem makeInterruptable_two_callables:
  "callable (PyFunc 1) \<and> callable (PyFunc 2)
   \<and> makeInterruptable (PyFunc 1) (PyFunc 2) sample_task =
       (Inl (AttributeError ''pausefunction''), sample_task)
   \<and> getattr sample_task ''interruptable'' = Inr (PyBool False)
   \<and> canPause sample_task = Inr (PyBool False)
   \<and> fire ''pause'' sample_task = Inl (AttributeError ''pause'')"
  using makeInterruptable_raises [of "PyFunc 1" "PyFunc 2" "''scan''" "PyFunc 0" "PyList []" "PyDict []"]
    init_machine_has_no_table [of "''scan''" "PyFunc 0" "PyList []" "PyDict []"]
  by (simp add: sample_task_def)

section \<open>Properties of the task registry\<close>

lemma sample_names:
  "getattr sample_task ''name'' = Inr (PyStr ''scan'')"
  "getattr other_task ''name'' = Inr (PyStr ''scan'')"
  by (simp_all add: sample_task_def other_task_def getattr_init_name)

lemma sample_tasks_differ: "other_task \<noteq> sample_task"
proof
  assume "other_task = sample_task"
  then have "attrs other_task ''func'' = attrs sample_task ''func''" by simp
  then show False by (simp add: sample_task_def other_task_def attrs_InterruptableTask_init)
qed

text \<open>
  C5. Registering a task under a name that the registry already holds returns \<open>-1\<close>,
  appends the error entry to the log and leaves the registry as it was, so the task
  registered first stays under the name; registering under a name the registry does not
  hold returns \<open>0\<close> and stores the task under the name.
\<close>

theorem registerTask_duplicate_rejected:
  assumes "getattr task ''name'' = Inr nm"
  shows "(\<forall>first. storage (tasks_of self w) nm = Some first \<longrightarrow>
            registerTask self task w =
              (Inr (- 1), w\<lparr>modlog := modlog w @ [already_registered_entry nm]\<rparr>))
       \<and> (storage (tasks_of self w) nm = None \<longrightarrow>
            registerTask self task w =
              (Inr 0,
               w\<lparr>cls_tasks := (cls_tasks w)\<lparr>storage := (storage (cls_tasks w))(nm \<mapsto> task)\<rparr>\<rparr>))"
  using assms
  by (simp add: registerTask_def tasks_of_def DictTableModel_add_def logMsg_def
      already_registered_entry_def)

theorem registerTask_duplicate_rejected_witness:
  "getattr sample_task ''name'' = Inr (PyStr ''scan'')
   \<and> getattr other_task ''name'' = Inr (PyStr ''scan'')
   \<and> other_task \<noteq> sample_task
   \<and> fst (registerTask scanner_logic sample_task new_world) = Inr 0
   \<and> fst (registerTask scanner_logic other_task
             (snd (registerTask scanner_logic sample_task new_world))) = Inr (- 1)
   \<and> storage (tasks_of scanner_logic
        (snd (registerTask scanner_logic other_task
                (snd (registerTask scanner_logic sample_task new_world)))))
        (PyStr ''scan'') = Some sample_task"
  using registerTask_duplicate_rejected [OF sample_names(1), of scanner_logic new_world]
    registerTask_duplicate_rejected [OF sample_names(2), of scanner_logic
      "new_world\<lparr>cls_tasks := DictTableModel_init\<lparr>storage := [PyStr ''scan'' \<mapsto> sample_task]\<rparr>\<rparr>"]
    sample_tasks_differ sample_names
  by (simp add: tasks_of_def new_world_def DictTableModel_init_def)

text \<open>
  C10. The registry is the one mapping of the class, the lock is per instance. Let an
  instance \<open>a\<close> be made, a task registered through \<open>a\<close> under a name not yet held, and
  an instance \<open>b\<close> be made afterwards. Then the registration succeeds, the task is found
  under its name through every instance \<open>c\<close> and through \<open>b\<close>, which did not
  exist when the task was registered, and the \<^verbatim>\<open>taskLock\<close> of \<open>b\<close> is not that of \<open>a\<close>.
\<close>

theorem tasks_shared_by_instances:
  assumes "GenericLogic_init n1 w = (a, w1)"
    and "registerTask a task w1 = (r, w2)"
    and "GenericLogic_init n2 w2 = (b, w3)"
    and "getattr task ''name'' = Inr nm"
    and "storage (tasks_of a w1) nm = None"
  shows "r = Inr 0
       \<and> (\<forall>c. storage (tasks_of c w2) nm = Some task)
       \<and> storage (tasks_of b w3) nm = Some task
       \<and> taskLock a \<noteq> taskLock b"
proof -
  have w1: "w1 = w\<lparr>mutexes := Suc (mutexes w)\<rparr>" and a: "taskLock a = mutexes w"
    using assms(1) by (auto simp: GenericLogic_init_def)
  have reg: "r = Inr 0"
    and w2: "w2 = w1\<lparr>cls_tasks := (cls_tasks w1)\<lparr>storage := (storage (cls_tasks w1))(nm \<mapsto> task)\<rparr>\<rparr>"
    using assms(2,4,5)
    by (auto simp: registerTask_def tasks_of_def DictTableModel_add_def)
  have w3: "w3 = w2\<lparr>mutexes := Suc (mutexes w2)\<rparr>" and b: "taskLock b = mutexes w2"
    using assms(3) by (auto simp: GenericLogic_init_def)
  have seen: "storage (tasks_of c w2) nm = Some task" for c
    by (simp add: tasks_of_def w2)
  have later: "storage (tasks_of b w3) nm = Some task"
    by (simp add: tasks_of_def w3 w2)
  have locks: "taskLock a \<noteq> taskLock b"
    by (simp add: a b w2 w1)
  from reg seen later locks show ?thesis by blast
qed

theorem tasks_shared_by_instances_witness:
  "GenericLogic_init ''scanner'' new_world = (scanner_logic, new_world\<lparr>mutexes := 1\<rparr>)
   \<and> registerTask scanner_logic sample_task (new_world\<lparr>mutexes := 1\<rparr>) =
       (Inr 0, registered_world)
   \<and> GenericLogic_init ''counter'' registered_world =
       (counter_logic, registered_world\<lparr>mutexes := 2\<rparr>)
   \<and> getattr sample_task ''name'' = Inr (PyStr ''scan'')
   \<and> storage (tasks_of scanner_logic (new_world\<lparr>mutexes := 1\<rparr>)) (PyStr ''scan'') = None
   \<and> storage (tasks_of scanner_logic registered_world) (PyStr ''scan'') = Some sample_task
   \<and> storage (tasks_of counter_logic (registered_world\<lparr>mutexes := 2\<rparr>)) (PyStr ''scan'')
       = Some sample_task
   \<and> taskLock scanner_logic \<noteq> taskLock counter_logic"
proof -
  have i1: "GenericLogic_init ''scanner'' new_world = (scanner_logic, new_world\<lparr>mutexes := 1\<rparr>)"
    by (simp add: GenericLogic_init_def new_world_def scanner_logic_def)
  have rg: "registerTask scanner_logic sample_task (new_world\<lparr>mutexes := 1\<rparr>) =
       (Inr 0, registered_world)"
    by (simp add: registerTask_def sample_names tasks_of_def DictTableModel_add_def
        new_world_def registered_world_def DictTableModel_init_def)
  have i2: "GenericLogic_init ''counter'' registered_world =
       (counter_logic, registered_world\<lparr>mutexes := 2\<rparr>)"
    by (simp add: GenericLogic_init_def registered_world_def counter_logic_def)
  have fresh: "storage (tasks_of scanner_logic (new_world\<lparr>mutexes := 1\<rparr>)) (PyStr ''scan'')
      = None"
    by (simp add: tasks_of_def new_world_def DictTableModel_init_def)
  show ?thesis
    using tasks_shared_by_instances [OF i1 rg i2 sample_names(1) fresh] i1 rg i2 fresh
      sample_names(1)
    by simp
qed

end
